theory Spec2Isabelle
  imports Complex_Main
begin

section \<open>DynamoAutoScale.py: data model\<close>

text \<open>
  The script is Python 2.7. Its numbers are Python ints (capacities, counters, the
  bucket length) and Python floats (the three multiples, the datapoint sums and the
  peaks). Ints are modelled as \<^typ>\<open>int\<close>. Floats are modelled as \<^typ>\<open>real\<close> with exact
  arithmetic: \<open>0.90\<close>, \<open>1.40\<close> and \<open>1.15\<close> stand for the decimal fractions the source
  text writes, not for the nearest binary doubles, and no rounding of products is
  modelled. \<open>math.ceil\<close> returns an integral float in Python 2; it is modelled by
  \<^const>\<open>ceiling\<close> into \<^typ>\<open>int\<close>, and the later \<open>int(...)\<close> conversion is the identity.
\<close>

datatype error = ZeroDivisionError

text \<open>
  Lines 11-37: the module-level configuration constants. They are meant to be edited by
  whoever deploys the script, so the model passes them as a record; \<open>default_config\<close>
  holds the values of the source text.
\<close>

record config =
  RAISE_CAPACITY_THRESHOLD :: real
  RAISE_CAPACITY_MULTIPLE :: real
  LOWER_CAPACITY_MULTIPLE :: real
  MAXIMUM_TIMES_TO_LOWER_CAPACITY_PER_DAY :: int
  MINIMUM_CAPACITY :: int
  MAXIMUM_CAPACITY :: int
  EMAIL_ADDRESS_OF_SENDER :: string
  EMAIL_ADDRESSES_OF_RECIPIENTS :: "string list"
  SECONDS_PER_DATA_POINT :: int

definition default_config :: config where
  "default_config =
     \<lparr>RAISE_CAPACITY_THRESHOLD = 90 / 100,
      RAISE_CAPACITY_MULTIPLE = 140 / 100,
      LOWER_CAPACITY_MULTIPLE = 115 / 100,
      MAXIMUM_TIMES_TO_LOWER_CAPACITY_PER_DAY = 1,
      MINIMUM_CAPACITY = 3,
      MAXIMUM_CAPACITY = 5000,
      EMAIL_ADDRESS_OF_SENDER = '''',
      EMAIL_ADDRESSES_OF_RECIPIENTS = [],
      SECONDS_PER_DATA_POINT = 300\<rparr>"

text \<open>
  What the external services answer. \<open>throughput\<close> is the dictionary read at
  lines 51-54 and 133-136; a datapoint is one element of \<open>["Datapoints"]\<close> of a
  \<open>get_metric_statistics\<close> response (only its \<open>"Sum"\<close> is read).
\<close>

record throughput =
  NumberOfDecreasesToday :: int
  WriteCapacityUnits :: int
  ReadCapacityUnits :: int

record datapoint =
  Timestamp :: string
  Sum :: real

record secondary_index =
  IndexName :: string
  ProvisionedThroughput :: throughput

record table =
  provisioned_throughput :: throughput
  global_secondary_indexes :: "secondary_index list option"

text \<open>
  The boto3 clients, as the answers they give during one invocation:
  \<open>list_tables\<close> is \<open>list_tables()["TableNames"]\<close>, \<open>Table\<close> is
  \<open>boto3.resource('dynamodb').Table(name)\<close>, and \<open>get_metric_statistics\<close> takes the
  \<open>Period\<close>, the \<open>MetricName\<close> and the \<open>Dimensions\<close> of the call and gives the
  datapoints of the trailing 1440 minutes. The calls are taken to return; an exception
  raised inside a client is outside this model.
\<close>

record aws =
  list_tables :: "string list"
  Table :: "string \<Rightarrow> table"
  get_metric_statistics :: "int \<Rightarrow> string \<Rightarrow> (string \<times> string) list \<Rightarrow> datapoint list"

text \<open>
  What the script does to the outside: \<open>update_table\<close> calls, \<open>send_email\<close> calls and
  printed lines, in the order they happen. \<open>returnString\<close> (lines 109-118, 199-208) is
  kept as the record of the values it concatenates, with its leading text; \<open>str\<close> of a
  float is not modelled. An \<open>update\<close> carries \<open>ReadCapacityUnits\<close> first and
  \<open>WriteCapacityUnits\<close> second, as the source writes them (lines 104-107, 187-197).
  A \<open>send_email\<close> carries \<open>Source\<close>, \<open>ToAddresses\<close>, the subject and the summary that
  the body \<open>"Details: "+returnString\<close> renders.
\<close>

record return_string =
  Heading :: string
  Write_Capacity :: int
  Read_Capacity :: int
  Decreases_So_Far_Today :: "int \<times> int"
  Peak_Read_Capacity :: real
  Peak_Write_Capacity :: real
  Updated_Read :: bool
  New_Read_Capacity :: int
  Updated_Write :: bool
  New_Write_Capacity :: int

datatype update =
    TableThroughput int int
  | GlobalSecondaryIndexUpdate string int int

datatype event =
    update_table string update
  | send_email string "string list" string return_string
  | print_line return_string
  | print_text string

section \<open>The capacity decision\<close>

text \<open>
  Lines 73-79 (and 155-161): one peak loop. \<open>peak\<close> starts at 0 and each datapoint
  replaces it by \<open>max(peak, datapoint["Sum"]/SECONDS_PER_DATA_POINT)\<close>. The sums are
  floats, so the division is float division; it raises \<open>ZeroDivisionError\<close> when the
  bucket length is 0.
\<close>

fun peakThroughputLastDay :: "config \<Rightarrow> real \<Rightarrow> datapoint list \<Rightarrow> error + real" where
  "peakThroughputLastDay cfg peak [] = Inr peak"
| "peakThroughputLastDay cfg peak (datapoint # rest) =
     (if SECONDS_PER_DATA_POINT cfg = 0 then Inl ZeroDivisionError
      else peakThroughputLastDay cfg
             (max peak (Sum datapoint / of_int (SECONDS_PER_DATA_POINT cfg))) rest)"

text \<open>
  Lines 81-100 of \<open>adjustTableCapacity\<close>; lines 164-183 of
  \<open>adjustTableIndexCapacities\<close> are the same statements on the index's values. Each
  \<open>let\<close> is one assignment of the source, in the source's order.
\<close>

record adjustment =
  adjustedWriteCapacity :: int
  adjustedReadCapacity :: int
  readWasUpdated :: bool
  writeWasUpdated :: bool

definition adjustCapacities ::
  "config \<Rightarrow> int \<Rightarrow> int \<Rightarrow> int \<Rightarrow> real \<Rightarrow> real \<Rightarrow> adjustment" where
  "adjustCapacities cfg decreasesSoFarToday writeCapacity readCapacity
       peakWriteThroughputLastDay peakReadThroughputLastDay =
    (let adjustedWrite = writeCapacity;
         adjustedRead = readCapacity;
         adjustedWrite =
           (if decreasesSoFarToday < MAXIMUM_TIMES_TO_LOWER_CAPACITY_PER_DAY cfg
            then \<lceil>peakWriteThroughputLastDay * LOWER_CAPACITY_MULTIPLE cfg\<rceil>
            else adjustedWrite);
         adjustedRead =
           (if decreasesSoFarToday < MAXIMUM_TIMES_TO_LOWER_CAPACITY_PER_DAY cfg
            then \<lceil>peakReadThroughputLastDay * LOWER_CAPACITY_MULTIPLE cfg\<rceil>
            else adjustedRead);
         adjustedWrite =
           (if peakWriteThroughputLastDay > of_int writeCapacity * RAISE_CAPACITY_THRESHOLD cfg
            then \<lceil>peakWriteThroughputLastDay * RAISE_CAPACITY_MULTIPLE cfg\<rceil>
            else adjustedWrite);
         adjustedRead =
           (if peakReadThroughputLastDay > of_int readCapacity * RAISE_CAPACITY_THRESHOLD cfg
            then \<lceil>peakReadThroughputLastDay * RAISE_CAPACITY_MULTIPLE cfg\<rceil>
            else adjustedRead);
         adjustedWrite = max adjustedWrite (MINIMUM_CAPACITY cfg);
         adjustedWrite = min adjustedWrite (MAXIMUM_CAPACITY cfg);
         adjustedRead = max adjustedRead (MINIMUM_CAPACITY cfg);
         adjustedRead = min adjustedRead (MAXIMUM_CAPACITY cfg)
     in \<lparr>adjustedWriteCapacity = adjustedWrite,
         adjustedReadCapacity = adjustedRead,
         readWasUpdated = (adjustedRead \<noteq> readCapacity),
         writeWasUpdated = (adjustedWrite \<noteq> writeCapacity)\<rparr>)"

text \<open>
  Lines 52-54 and 73-100 (133-136 and 155-183 for an index): the three values read from
  the throughput dictionary, the read loop, the write loop, then the decision. The result
  is the two peaks, write first, and the adjustment.
\<close>

definition computeAdjustment ::
  "config \<Rightarrow> throughput \<Rightarrow> datapoint list \<Rightarrow> datapoint list
     \<Rightarrow> error + (real \<times> real \<times> adjustment)" where
  "computeAdjustment cfg currentCapacity writeThroughput readThroughput =
    (let decreasesSoFarToday = NumberOfDecreasesToday currentCapacity;
         writeCapacity = WriteCapacityUnits currentCapacity;
         readCapacity = ReadCapacityUnits currentCapacity
     in case peakThroughputLastDay cfg 0 readThroughput of
          Inl e \<Rightarrow> Inl e
        | Inr peakRead \<Rightarrow>
            (case peakThroughputLastDay cfg 0 writeThroughput of
               Inl e \<Rightarrow> Inl e
             | Inr peakWrite \<Rightarrow>
                 Inr (peakWrite, peakRead,
                      adjustCapacities cfg decreasesSoFarToday writeCapacity readCapacity
                        peakWrite peakRead)))"

section \<open>Updates, notifications and log lines\<close>

text \<open>Lines 215-234: \<open>sendEmailNotification\<close> is one \<open>send_email\<close> call.\<close>

definition sendEmailNotification :: "config \<Rightarrow> string \<Rightarrow> return_string \<Rightarrow> event" where
  "sendEmailNotification cfg subject body =
     send_email (EMAIL_ADDRESS_OF_SENDER cfg) (EMAIL_ADDRESSES_OF_RECIPIENTS cfg) subject body"

text \<open>
  Lines 102-121 of \<open>adjustTableCapacity\<close>: the combined update when either direction
  changed, the summary, the notification when something changed and both the recipients
  and the sender are configured, and the printed line.
\<close>

definition tableEffects ::
  "config \<Rightarrow> string \<Rightarrow> throughput \<Rightarrow> real \<Rightarrow> real \<Rightarrow> adjustment \<Rightarrow> event list" where
  "tableEffects cfg tableName currentCapacity peakWrite peakRead a =
    (let returnString =
           \<lparr>Heading = ''Dynamo Table: '' @ tableName,
            Write_Capacity = WriteCapacityUnits currentCapacity,
            Read_Capacity = ReadCapacityUnits currentCapacity,
            Decreases_So_Far_Today =
              (NumberOfDecreasesToday currentCapacity,
               MAXIMUM_TIMES_TO_LOWER_CAPACITY_PER_DAY cfg),
            Peak_Read_Capacity = peakRead,
            Peak_Write_Capacity = peakWrite,
            Updated_Read = readWasUpdated a,
            New_Read_Capacity = adjustedReadCapacity a,
            Updated_Write = writeWasUpdated a,
            New_Write_Capacity = adjustedWriteCapacity a\<rparr>
     in (if readWasUpdated a \<or> writeWasUpdated a
         then [update_table tableName
                 (TableThroughput (adjustedReadCapacity a) (adjustedWriteCapacity a))]
         else [])
        @ (if (readWasUpdated a = True \<or> writeWasUpdated a = True)
              \<and> length (EMAIL_ADDRESSES_OF_RECIPIENTS cfg) > 0
              \<and> EMAIL_ADDRESS_OF_SENDER cfg \<noteq> ''''
           then [sendEmailNotification cfg
                   (''Dynamo Capacity Updated For Table '' @ tableName) returnString]
           else [])
        @ [print_line returnString])"

text \<open>Lines 185-211 of \<open>adjustTableIndexCapacities\<close>: the same for one index.\<close>

definition indexEffects ::
  "config \<Rightarrow> string \<Rightarrow> string \<Rightarrow> throughput \<Rightarrow> real \<Rightarrow> real \<Rightarrow> adjustment
     \<Rightarrow> event list" where
  "indexEffects cfg tableName secondaryIndexName currentCapacity peakWrite peakRead a =
    (let returnString =
           \<lparr>Heading = ''Dynamo Table ('' @ tableName @ '') Index: '' @ secondaryIndexName,
            Write_Capacity = WriteCapacityUnits currentCapacity,
            Read_Capacity = ReadCapacityUnits currentCapacity,
            Decreases_So_Far_Today =
              (NumberOfDecreasesToday currentCapacity,
               MAXIMUM_TIMES_TO_LOWER_CAPACITY_PER_DAY cfg),
            Peak_Read_Capacity = peakRead,
            Peak_Write_Capacity = peakWrite,
            Updated_Read = readWasUpdated a,
            New_Read_Capacity = adjustedReadCapacity a,
            Updated_Write = writeWasUpdated a,
            New_Write_Capacity = adjustedWriteCapacity a\<rparr>
     in (if readWasUpdated a \<or> writeWasUpdated a
         then [update_table tableName
                 (GlobalSecondaryIndexUpdate secondaryIndexName
                    (adjustedReadCapacity a) (adjustedWriteCapacity a))]
         else [])
        @ (if (readWasUpdated a = True \<or> writeWasUpdated a = True)
              \<and> length (EMAIL_ADDRESSES_OF_RECIPIENTS cfg) > 0
              \<and> EMAIL_ADDRESS_OF_SENDER cfg \<noteq> ''''
           then [sendEmailNotification cfg
                   (''Dynamo Capacity Updated For Index '' @ secondaryIndexName
                      @ '' on Table '' @ tableName)
                   returnString]
           else [])
        @ [print_line returnString])"

section \<open>The three functions of the script\<close>

text \<open>
  A run is the list of effects in order, and the exception that ended it, if one did.
  \<open>adjustTableCapacity\<close> is lines 47-121.
\<close>

definition adjustTableCapacity :: "config \<Rightarrow> aws \<Rightarrow> string \<Rightarrow> event list \<times> error option" where
  "adjustTableCapacity cfg boto3 tableName =
    (let dynamodb = Table boto3 tableName;
         currentCapacity = provisioned_throughput dynamodb;
         dimensions = [(''TableName'', tableName)];
         writeThroughput =
           get_metric_statistics boto3 (SECONDS_PER_DATA_POINT cfg)
             ''ConsumedWriteCapacityUnits'' dimensions;
         readThroughput =
           get_metric_statistics boto3 (SECONDS_PER_DATA_POINT cfg)
             ''ConsumedReadCapacityUnits'' dimensions
     in case computeAdjustment cfg currentCapacity writeThroughput readThroughput of
          Inl e \<Rightarrow> ([], Some e)
        | Inr (peakWrite, peakRead, a) \<Rightarrow>
            (tableEffects cfg tableName currentCapacity peakWrite peakRead a, None))"

text \<open>Lines 132-211: the body of the loop over the secondary indexes.\<close>

definition adjustIndexCapacity ::
  "config \<Rightarrow> aws \<Rightarrow> string \<Rightarrow> secondary_index \<Rightarrow> event list \<times> error option" where
  "adjustIndexCapacity cfg boto3 tableName secondaryIndex =
    (let secondaryIndexName = IndexName secondaryIndex;
         currentCapacity = ProvisionedThroughput secondaryIndex;
         dimensions =
           [(''TableName'', tableName), (''GlobalSecondaryIndexName'', secondaryIndexName)];
         writeThroughput =
           get_metric_statistics boto3 (SECONDS_PER_DATA_POINT cfg)
             ''ConsumedWriteCapacityUnits'' dimensions;
         readThroughput =
           get_metric_statistics boto3 (SECONDS_PER_DATA_POINT cfg)
             ''ConsumedReadCapacityUnits'' dimensions
     in case computeAdjustment cfg currentCapacity writeThroughput readThroughput of
          Inl e \<Rightarrow> ([], Some e)
        | Inr (peakWrite, peakRead, a) \<Rightarrow>
            (indexEffects cfg tableName secondaryIndexName currentCapacity
               peakWrite peakRead a, None))"

text \<open>
  Lines 131-212: the loop, and the line printed after it. An exception in one index
  ends the loop: the indexes after it are not reached and the last line is not printed.
\<close>

fun adjustIndexes ::
  "config \<Rightarrow> aws \<Rightarrow> string \<Rightarrow> secondary_index list \<Rightarrow> event list \<times> error option" where
  "adjustIndexes cfg boto3 tableName [] =
     ([print_text (''Finished Secondary Indexes on Table: '' @ tableName)], None)"
| "adjustIndexes cfg boto3 tableName (secondaryIndex # rest) =
     (case adjustIndexCapacity cfg boto3 tableName secondaryIndex of
        (evs, Some e) \<Rightarrow> (evs, Some e)
      | (evs, None) \<Rightarrow>
          (case adjustIndexes cfg boto3 tableName rest of
             (evs', r) \<Rightarrow> (evs @ evs', r)))"

text \<open>Lines 123-212, with the early return of lines 125-127.\<close>

definition adjustTableIndexCapacities ::
  "config \<Rightarrow> aws \<Rightarrow> string \<Rightarrow> event list \<times> error option" where
  "adjustTableIndexCapacities cfg boto3 tableName =
    (let dynamodb = Table boto3 tableName
     in case global_secondary_indexes dynamodb of
          None \<Rightarrow> ([print_text (''No secondary indexes in table: '' @ tableName)], None)
        | Some indexes \<Rightarrow> adjustIndexes cfg boto3 tableName indexes)"

text \<open>Lines 40-45: every table, then its indexes, until an exception ends the run.\<close>

fun adjustTables :: "config \<Rightarrow> aws \<Rightarrow> string list \<Rightarrow> event list \<times> error option" where
  "adjustTables cfg boto3 [] = ([], None)"
| "adjustTables cfg boto3 (table # rest) =
     (case adjustTableCapacity cfg boto3 table of
        (evs, Some e) \<Rightarrow> (evs, Some e)
      | (evs, None) \<Rightarrow>
          (case adjustTableIndexCapacities cfg boto3 table of
             (evs', Some e) \<Rightarrow> (evs @ evs', Some e)
           | (evs', None) \<Rightarrow>
               (case adjustTables cfg boto3 rest of
                  (evs'', r) \<Rightarrow> (evs @ evs' @ evs'', r))))"

definition lambda_handler :: "config \<Rightarrow> aws \<Rightarrow> event list \<times> error option" where
  "lambda_handler cfg boto3 = adjustTables cfg boto3 (list_tables boto3)"

section \<open>Observations used in the statements\<close>

text \<open>The \<open>send_email\<close> calls of a run, and its \<open>update_table\<close> calls.\<close>

fun is_send_email :: "event \<Rightarrow> bool" where
  "is_send_email (send_email source to subject body) = True"
| "is_send_email _ = False"

definition notifications :: "event list \<Rightarrow> event list" where
  "notifications evs = filter is_send_email evs"

fun is_update_table :: "event \<Rightarrow> bool" where
  "is_update_table (update_table tableName u) = True"
| "is_update_table _ = False"

definition updates :: "event list \<Rightarrow> event list" where
  "updates evs = filter is_update_table evs"

text \<open>
  What one direction of a computed adjustment shows: the peak, the adjusted capacity
  and the changed flag of that direction, or the exception.
\<close>

definition readOutcome ::
  "error + (real \<times> real \<times> adjustment) \<Rightarrow> error + (real \<times> int \<times> bool)" where
  "readOutcome r =
     (case r of
        Inl e \<Rightarrow> Inl e
      | Inr (peakWrite, peakRead, a) \<Rightarrow>
          Inr (peakRead, adjustedReadCapacity a, readWasUpdated a))"

definition writeOutcome ::
  "error + (real \<times> real \<times> adjustment) \<Rightarrow> error + (real \<times> int \<times> bool)" where
  "writeOutcome r =
     (case r of
        Inl e \<Rightarrow> Inl e
      | Inr (peakWrite, peakRead, a) \<Rightarrow>
          Inr (peakWrite, adjustedWriteCapacity a, writeWasUpdated a))"

text \<open>
  A configuration with notifications switched on, and an account with one table above
  the maximum capacity whose decrease of the day is used up, and one index at 10/10
  whose busiest bucket of 300 seconds summed to 2700 units.
\<close>

definition notifying_config :: config where
  "notifying_config =
     default_config
       \<lparr>EMAIL_ADDRESS_OF_SENDER := ''sender@example.com'',
        EMAIL_ADDRESSES_OF_RECIPIENTS := [''ops@example.com'']\<rparr>"

definition example_boto3 :: aws where
  "example_boto3 =
     \<lparr>list_tables = [''orders''],
      Table = (\<lambda>name.
        \<lparr>provisioned_throughput =
           \<lparr>NumberOfDecreasesToday = 1, WriteCapacityUnits = 6000, ReadCapacityUnits = 6000\<rparr>,
         global_secondary_indexes =
           Some [\<lparr>IndexName = ''by_customer'',
                  ProvisionedThroughput =
                    \<lparr>NumberOfDecreasesToday = 0, WriteCapacityUnits = 10,
                     ReadCapacityUnits = 10\<rparr>\<rparr>]\<rparr>),
      get_metric_statistics = (\<lambda>period metric dimensions.
        if length dimensions = 2
        then [\<lparr>Timestamp = ''2016-05-01T00:00:00'', Sum = 1200\<rparr>,
              \<lparr>Timestamp = ''2016-05-01T00:05:00'', Sum = 2700\<rparr>]
        else [])\<rparr>"

section \<open>Properties\<close>

subsection \<open>The decision in closed form\<close>

text \<open>
  The sequence of assignments of \<open>adjustCapacities\<close>, read off for each output. These
  four equations are what the later proofs unfold.
\<close>

lemma adjustedReadCapacity_eq:
  "adjustedReadCapacity (adjustCapacities cfg d w r pw pr) =
     min (max (if pr > of_int r * RAISE_CAPACITY_THRESHOLD cfg
               then \<lceil>pr * RAISE_CAPACITY_MULTIPLE cfg\<rceil>
               else if d < MAXIMUM_TIMES_TO_LOWER_CAPACITY_PER_DAY cfg
                    then \<lceil>pr * LOWER_CAPACITY_MULTIPLE cfg\<rceil> else r)
          (MINIMUM_CAPACITY cfg)) (MAXIMUM_CAPACITY cfg)"
  by (simp add: adjustCapacities_def Let_def)

lemma adjustedWriteCapacity_eq:
  "adjustedWriteCapacity (adjustCapacities cfg d w r pw pr) =
     min (max (if pw > of_int w * RAISE_CAPACITY_THRESHOLD cfg
               then \<lceil>pw * RAISE_CAPACITY_MULTIPLE cfg\<rceil>
               else if d < MAXIMUM_TIMES_TO_LOWER_CAPACITY_PER_DAY cfg
                    then \<lceil>pw * LOWER_CAPACITY_MULTIPLE cfg\<rceil> else w)
          (MINIMUM_CAPACITY cfg)) (MAXIMUM_CAPACITY cfg)"
  by (simp add: adjustCapacities_def Let_def)

lemma readWasUpdated_eq:
  "readWasUpdated (adjustCapacities cfg d w r pw pr) =
     (adjustedReadCapacity (adjustCapacities cfg d w r pw pr) \<noteq> r)"
  by (simp add: adjustCapacities_def Let_def)

lemma writeWasUpdated_eq:
  "writeWasUpdated (adjustCapacities cfg d w r pw pr) =
     (adjustedWriteCapacity (adjustCapacities cfg d w r pw pr) \<noteq> w)"
  by (simp add: adjustCapacities_def Let_def)

lemma default_values:
  "RAISE_CAPACITY_THRESHOLD default_config = 9 / 10"
  "RAISE_CAPACITY_MULTIPLE default_config = 7 / 5"
  "LOWER_CAPACITY_MULTIPLE default_config = 23 / 20"
  "MAXIMUM_TIMES_TO_LOWER_CAPACITY_PER_DAY default_config = 1"
  "MINIMUM_CAPACITY default_config = 3"
  "MAXIMUM_CAPACITY default_config = 5000"
  "SECONDS_PER_DATA_POINT default_config = 300"
  by (simp_all add: default_config_def)

subsection \<open>The raise pass\<close>

text \<open>
  C1. For each direction, the raise pass tests the peak against the capacity read from
  the service: it fires exactly when \<open>peak > currentCapacity * RAISE_CAPACITY_THRESHOLD\<close>,
  whatever the lower pass did, and when it fires the value before clamping is
  \<open>ceil(peak * RAISE_CAPACITY_MULTIPLE)\<close> in place of the lower pass's value; when it does
  not fire the value before clamping is the lower pass's. Tables and indexes both take
  their adjustment from \<open>adjustCapacities\<close> (through \<open>computeAdjustment\<close>).
\<close>

theorem raise_pass_tests_original_capacity:
  "adjustedReadCapacity
     (adjustCapacities cfg decreasesSoFarToday writeCapacity readCapacity peakWrite peakRead) =
     min (max (if peakRead > of_int readCapacity * RAISE_CAPACITY_THRESHOLD cfg
               then \<lceil>peakRead * RAISE_CAPACITY_MULTIPLE cfg\<rceil>
               else if decreasesSoFarToday < MAXIMUM_TIMES_TO_LOWER_CAPACITY_PER_DAY cfg
                    then \<lceil>peakRead * LOWER_CAPACITY_MULTIPLE cfg\<rceil>
                    else readCapacity)
          (MINIMUM_CAPACITY cfg)) (MAXIMUM_CAPACITY cfg)
   \<and> adjustedWriteCapacity
     (adjustCapacities cfg decreasesSoFarToday writeCapacity readCapacity peakWrite peakRead) =
     min (max (if peakWrite > of_int writeCapacity * RAISE_CAPACITY_THRESHOLD cfg
               then \<lceil>peakWrite * RAISE_CAPACITY_MULTIPLE cfg\<rceil>
               else if decreasesSoFarToday < MAXIMUM_TIMES_TO_LOWER_CAPACITY_PER_DAY cfg
                    then \<lceil>peakWrite * LOWER_CAPACITY_MULTIPLE cfg\<rceil>
                    else writeCapacity)
          (MINIMUM_CAPACITY cfg)) (MAXIMUM_CAPACITY cfg)"
  by (simp add: adjustCapacities_def Let_def)

text \<open>
  An input that tells the two readings apart: capacity 5, no decrease so far, peak 10.
  The lower pass gives 12. Tested against the capacity 5 the raise pass fires and the
  result is \<open>ceil(10 * 1.40) = 14\<close>; tested against the lowered value 12 it would not
  fire.
\<close>

lemma raise_pass_example:
  "adjustedReadCapacity (adjustCapacities default_config 0 5 5 10 10) = 14
   \<and> \<lceil>10 * LOWER_CAPACITY_MULTIPLE default_config\<rceil> = 12
   \<and> \<not> (10 > of_int 12 * RAISE_CAPACITY_THRESHOLD default_config)"
  by (simp add: adjustedReadCapacity_eq default_values)

subsection \<open>The path on which neither pass fires\<close>

text \<open>
  C2. When the decrease count has reached the daily limit and the peak is at most
  \<open>currentCapacity * RAISE_CAPACITY_THRESHOLD\<close>, the adjusted capacity is the current
  capacity clamped to the minimum and the maximum: neither pass fires.
\<close>

theorem no_op_path:
  assumes "MAXIMUM_TIMES_TO_LOWER_CAPACITY_PER_DAY cfg \<le> d"
  shows "(pr \<le> of_int r * RAISE_CAPACITY_THRESHOLD cfg \<longrightarrow>
            adjustedReadCapacity (adjustCapacities cfg d w r pw pr)
              = min (max r (MINIMUM_CAPACITY cfg)) (MAXIMUM_CAPACITY cfg))
       \<and> (pw \<le> of_int w * RAISE_CAPACITY_THRESHOLD cfg \<longrightarrow>
            adjustedWriteCapacity (adjustCapacities cfg d w r pw pr)
              = min (max w (MINIMUM_CAPACITY cfg)) (MAXIMUM_CAPACITY cfg))"
  using assms by (simp add: adjustedReadCapacity_eq adjustedWriteCapacity_eq)

theorem no_op_path_witness:
  "MAXIMUM_TIMES_TO_LOWER_CAPACITY_PER_DAY default_config \<le> 1
   \<and> (9::real) \<le> of_int 10 * RAISE_CAPACITY_THRESHOLD default_config
   \<and> adjustedReadCapacity (adjustCapacities default_config 1 10 10 9 9) = 10
   \<and> adjustedWriteCapacity (adjustCapacities default_config 1 10 10 9 9) = 10"
  using no_op_path
          [where cfg = default_config and d = 1 and w = 10 and r = 10 and pw = 9 and pr = 9]
  by (simp add: default_values)

subsection \<open>Reaching the minimum\<close>

text \<open>
  C3, as the specification states it, with no condition on the decrease count: whenever
  \<open>ceil(peak * LOWER_CAPACITY_MULTIPLE) < MINIMUM_CAPACITY\<close> the adjusted capacity is
  \<open>MINIMUM_CAPACITY\<close>. It fails at the default configuration for a unit at capacity 10
  with peak 0 whose decrease of the day is used up: the lower pass is skipped, the raise
  pass does not fire, and the capacity stays 10.
\<close>

theorem minimum_not_reached_counterexample:
  "\<lceil>0 * LOWER_CAPACITY_MULTIPLE default_config\<rceil> < MINIMUM_CAPACITY default_config
   \<and> adjustedReadCapacity (adjustCapacities default_config 1 10 10 0 0) = 10
   \<and> 10 \<noteq> MINIMUM_CAPACITY default_config"
  by (simp add: adjustedReadCapacity_eq default_values)

text \<open>
  With the default multiples, a peak whose lowered value is below the minimum has a
  raised value of at most the minimum: \<open>ceil(1.15 p) \<le> 2\<close> gives \<open>1.40 p \<le> 3\<close>.
\<close>

lemma default_low_peak:
  assumes "\<lceil>p * LOWER_CAPACITY_MULTIPLE default_config\<rceil> < MINIMUM_CAPACITY default_config"
  shows "\<lceil>p * RAISE_CAPACITY_MULTIPLE default_config\<rceil> \<le> MINIMUM_CAPACITY default_config"
proof -
  from assms have "p * (23 / 20) \<le> 2"
    by (simp add: default_values ceiling_less_iff)
  then have "p * (7 / 5) \<le> 3" by simp
  then show ?thesis by (simp add: default_values ceiling_le_iff)
qed

text \<open>
  C3, amended: with the constants of the source, whenever
  \<open>ceil(peak * LOWER_CAPACITY_MULTIPLE) < MINIMUM_CAPACITY\<close> and the decrease count is
  below the daily limit, the adjusted capacity is \<open>MINIMUM_CAPACITY\<close>.
\<close>

theorem minimum_reached_when_lower_pass_fires:
  assumes "d < MAXIMUM_TIMES_TO_LOWER_CAPACITY_PER_DAY default_config"
  shows "(\<lceil>pr * LOWER_CAPACITY_MULTIPLE default_config\<rceil> < MINIMUM_CAPACITY default_config
            \<longrightarrow> adjustedReadCapacity (adjustCapacities default_config d w r pw pr)
                  = MINIMUM_CAPACITY default_config)
       \<and> (\<lceil>pw * LOWER_CAPACITY_MULTIPLE default_config\<rceil> < MINIMUM_CAPACITY default_config
            \<longrightarrow> adjustedWriteCapacity (adjustCapacities default_config d w r pw pr)
                  = MINIMUM_CAPACITY default_config)"
  using assms default_low_peak [of pr] default_low_peak [of pw]
  by (auto simp add: adjustedReadCapacity_eq adjustedWriteCapacity_eq default_values)

theorem minimum_reached_when_lower_pass_fires_witness:
  "0 < MAXIMUM_TIMES_TO_LOWER_CAPACITY_PER_DAY default_config
   \<and> \<lceil>(3 / 2) * LOWER_CAPACITY_MULTIPLE default_config\<rceil> < MINIMUM_CAPACITY default_config
   \<and> \<lceil>0 * LOWER_CAPACITY_MULTIPLE default_config\<rceil> < MINIMUM_CAPACITY default_config
   \<and> adjustedReadCapacity (adjustCapacities default_config 0 10 1 0 (3 / 2)) = 3
   \<and> adjustedWriteCapacity (adjustCapacities default_config 0 10 1 0 (3 / 2)) = 3"
  using minimum_reached_when_lower_pass_fires
          [where d = 0 and w = 10 and r = 1 and pw = 0 and pr = "3 / 2"]
  by (simp add: default_values)

subsection \<open>Reaching the maximum\<close>

text \<open>
  C4, as the specification states it, with no condition that the raise pass fires:
  whenever \<open>ceil(peak * RAISE_CAPACITY_MULTIPLE) > MAXIMUM_CAPACITY\<close> the adjusted capacity
  is \<open>MAXIMUM_CAPACITY\<close>. It fails at the default configuration for a unit at capacity
  4000 with peak 3580 whose decrease of the day is used up: \<open>3580 * 1.40 = 5012\<close> is above
  5000, but 3580 is not above \<open>4000 * 0.90 = 3600\<close>, so no pass fires and the capacity
  stays 4000.
\<close>

theorem maximum_not_reached_counterexample:
  "\<lceil>3580 * RAISE_CAPACITY_MULTIPLE default_config\<rceil> > MAXIMUM_CAPACITY default_config
   \<and> \<not> (3580 > of_int 4000 * RAISE_CAPACITY_THRESHOLD default_config)
   \<and> adjustedReadCapacity (adjustCapacities default_config 1 4000 4000 3580 3580) = 4000
   \<and> 4000 \<noteq> MAXIMUM_CAPACITY default_config"
  by (simp add: adjustedReadCapacity_eq default_values)

text \<open>
  C4, amended: whenever the raise pass fires, that is
  \<open>peak > currentCapacity * RAISE_CAPACITY_THRESHOLD\<close>, and
  \<open>ceil(peak * RAISE_CAPACITY_MULTIPLE) > MAXIMUM_CAPACITY\<close>, the adjusted capacity is
  \<open>MAXIMUM_CAPACITY\<close>. This holds for every configuration.
\<close>

theorem maximum_reached_when_raise_pass_fires:
  "(pr > of_int r * RAISE_CAPACITY_THRESHOLD cfg
      \<and> \<lceil>pr * RAISE_CAPACITY_MULTIPLE cfg\<rceil> > MAXIMUM_CAPACITY cfg \<longrightarrow>
        adjustedReadCapacity (adjustCapacities cfg d w r pw pr) = MAXIMUM_CAPACITY cfg)
   \<and> (pw > of_int w * RAISE_CAPACITY_THRESHOLD cfg
      \<and> \<lceil>pw * RAISE_CAPACITY_MULTIPLE cfg\<rceil> > MAXIMUM_CAPACITY cfg \<longrightarrow>
        adjustedWriteCapacity (adjustCapacities cfg d w r pw pr) = MAXIMUM_CAPACITY cfg)"
  by (auto simp add: adjustedReadCapacity_eq adjustedWriteCapacity_eq)

theorem maximum_reached_when_raise_pass_fires_witness:
  "(3700::real) > of_int 4000 * RAISE_CAPACITY_THRESHOLD default_config
   \<and> \<lceil>3700 * RAISE_CAPACITY_MULTIPLE default_config\<rceil> > MAXIMUM_CAPACITY default_config
   \<and> adjustedReadCapacity (adjustCapacities default_config 1 4000 4000 3700 3700) = 5000
   \<and> adjustedWriteCapacity (adjustCapacities default_config 1 4000 4000 3700 3700) = 5000"
  using maximum_reached_when_raise_pass_fires
          [where cfg = default_config and d = 1 and w = 4000 and r = 4000
             and pw = 3700 and pr = 3700]
  by (simp add: default_values)

subsection \<open>The scenario at the threshold\<close>

text \<open>
  C5. With the default configuration, current capacity 10, no decrease so far today and
  peak 9: the lower pass fires (0 is below the daily limit 1) and gives
  \<open>ceil(9 * 1.15) = 11\<close>; the raise condition \<open>9 > 10 * 0.90\<close> is false, the comparison
  being strict; the adjusted capacity is 11 and the changed flag is set, for read and
  for write.
\<close>

theorem default_scenario_peak_9_of_10:
  "0 < MAXIMUM_TIMES_TO_LOWER_CAPACITY_PER_DAY default_config
   \<and> \<lceil>9 * LOWER_CAPACITY_MULTIPLE default_config\<rceil> = 11
   \<and> \<not> (9 > of_int 10 * RAISE_CAPACITY_THRESHOLD default_config)
   \<and> 9 = of_int 10 * RAISE_CAPACITY_THRESHOLD default_config
   \<and> adjustedReadCapacity (adjustCapacities default_config 0 10 10 9 9) = 11
   \<and> readWasUpdated (adjustCapacities default_config 0 10 10 9 9)
   \<and> adjustedWriteCapacity (adjustCapacities default_config 0 10 10 9 9) = 11
   \<and> writeWasUpdated (adjustCapacities default_config 0 10 10 9 9)"
  by (simp add: adjustCapacities_def default_config_def Let_def)


subsection \<open>Monotonicity in the peak\<close>

lemma max_le_maxI:
  fixes a b m :: int
  assumes "a \<le> b \<or> a \<le> m"
  shows "max a m \<le> max b m"
  using assms by auto

text \<open>
  The value before the upper clamp, with the constants of the source, at two peaks
  \<open>p1 \<le> p2\<close>. The only step that is not monotonicity of \<open>ceil\<close> is the one where the
  raise pass fires at \<open>p2\<close> and not at \<open>p1\<close>.
\<close>

lemma default_passes_mono:
  fixes p1 p2 :: real
  assumes "p1 \<le> p2"
  shows "max (if p1 > of_int c * (9 / 10) then \<lceil>p1 * (7 / 5)\<rceil>
              else if d < (1::int) then \<lceil>p1 * (23 / 20)\<rceil> else c) 3
         \<le> max (if p2 > of_int c * (9 / 10) then \<lceil>p2 * (7 / 5)\<rceil>
                else if d < 1 then \<lceil>p2 * (23 / 20)\<rceil> else c) (3::int)"
    (is "max (?f p1) 3 \<le> max (?f p2) 3")
proof (rule max_le_maxI)
  show "?f p1 \<le> ?f p2 \<or> ?f p1 \<le> 3"
  proof (cases "p1 > of_int c * (9 / 10)")
    case True
    with assms have high2: "p2 > of_int c * (9 / 10)" by simp
    from assms have "\<lceil>p1 * (7 / 5)\<rceil> \<le> \<lceil>p2 * (7 / 5)\<rceil>"
      by (intro ceiling_mono) simp
    moreover have "?f p1 = \<lceil>p1 * (7 / 5)\<rceil>" using True by simp
    moreover have "?f p2 = \<lceil>p2 * (7 / 5)\<rceil>" using high2 by simp
    ultimately show ?thesis by simp
  next
    case low1: False
    show ?thesis
    proof (cases "p2 > of_int c * (9 / 10)")
      case low2: False
      show ?thesis
      proof (cases "d < 1")
        case True
        from assms have "\<lceil>p1 * (23 / 20)\<rceil> \<le> \<lceil>p2 * (23 / 20)\<rceil>"
          by (intro ceiling_mono) simp
        moreover have "?f p1 = \<lceil>p1 * (23 / 20)\<rceil>" using low1 True by simp
        moreover have "?f p2 = \<lceil>p2 * (23 / 20)\<rceil>" using low2 True by simp
        ultimately show ?thesis by simp
      next
        case False
        have "?f p1 = c" using low1 False by simp
        moreover have "?f p2 = c" using low2 False by simp
        ultimately show ?thesis by simp
      qed
    next
      case high2: True
      have f2: "?f p2 = \<lceil>p2 * (7 / 5)\<rceil>" using high2 by simp
      show ?thesis
      proof (cases "d < 1")
        case True
        have f1: "?f p1 = \<lceil>p1 * (23 / 20)\<rceil>" using low1 True by simp
        show ?thesis
        proof (cases "0 \<le> p2")
          case True
          with assms have "p1 * (23 / 20) \<le> p2 * (7 / 5)" by simp
          then have "\<lceil>p1 * (23 / 20)\<rceil> \<le> \<lceil>p2 * (7 / 5)\<rceil>" by (rule ceiling_mono)
          with f1 f2 show ?thesis by simp
        next
          case False
          with assms have "p1 * (23 / 20) \<le> of_int 3" by simp
          then have "\<lceil>p1 * (23 / 20)\<rceil> \<le> 3" by (simp only: ceiling_le_iff)
          with f1 show ?thesis by simp
        qed
      next
        case False
        have f1: "?f p1 = c" using low1 False by simp
        show ?thesis
        proof (cases "c \<le> 3")
          case True
          with f1 show ?thesis by simp
        next
          case False
          then have "(0::real) < of_int c" by simp
          with high2 have "of_int c - 1 < p2 * (7 / 5)" by simp
          then have "c \<le> \<lceil>p2 * (7 / 5)\<rceil>" by (simp only: le_ceiling_iff)
          with f1 f2 show ?thesis by simp
        qed
      qed
    qed
  qed
qed

text \<open>
  C8. With the constants of the source, for a fixed current capacity and decrease
  count, the adjusted capacity does not decrease when the peak grows, for read and for
  write. This covers the step where the raise condition starts to hold.
\<close>

theorem default_adjusted_capacity_monotone_in_peak:
  assumes "p1 \<le> p2"
  shows "adjustedReadCapacity (adjustCapacities default_config d w r pw p1)
           \<le> adjustedReadCapacity (adjustCapacities default_config d w r pw p2)
       \<and> adjustedWriteCapacity (adjustCapacities default_config d w r p1 pr)
           \<le> adjustedWriteCapacity (adjustCapacities default_config d w r p2 pr)"
  unfolding adjustedReadCapacity_eq adjustedWriteCapacity_eq default_values
  by (intro conjI min.mono default_passes_mono assms order_refl)

theorem default_adjusted_capacity_monotone_in_peak_witness:
  "(9::real) \<le> 10
   \<and> adjustedReadCapacity (adjustCapacities default_config 1 10 10 0 9) = 10
   \<and> adjustedReadCapacity (adjustCapacities default_config 1 10 10 0 10) = 14
   \<and> adjustedWriteCapacity (adjustCapacities default_config 1 10 10 9 0) = 10
   \<and> adjustedWriteCapacity (adjustCapacities default_config 1 10 10 10 0) = 14"
  using default_adjusted_capacity_monotone_in_peak
          [where ?p1.0 = 9 and ?p2.0 = 10 and d = 1 and w = 10 and r = 10
             and pw = 0 and pr = 0]
  by (simp add: adjustedReadCapacity_eq adjustedWriteCapacity_eq default_values)

subsection \<open>Runs return when the bucket length is not 0\<close>

text \<open>
  The only exception of the model is the division by a bucket length of 0. With any
  other bucket length each peak loop returns, the adjustment is the one
  \<open>adjustCapacities\<close> computes from the two peaks, and a table or an index is processed
  by one call of \<open>tableEffects\<close> or \<open>indexEffects\<close> on that adjustment.
\<close>

lemma peakThroughputLastDay_returns:
  assumes "SECONDS_PER_DATA_POINT cfg \<noteq> 0"
  shows "\<exists>p. peakThroughputLastDay cfg peak datapoints = Inr p"
  using assms by (induction datapoints arbitrary: peak) simp_all

text \<open>With a bucket length of 0 the first datapoint of a loop raises.\<close>

lemma zero_bucket_length_raises:
  "computeAdjustment (default_config\<lparr>SECONDS_PER_DATA_POINT := 0\<rparr>)
      \<lparr>NumberOfDecreasesToday = 0, WriteCapacityUnits = 10, ReadCapacityUnits = 10\<rparr>
      [\<lparr>Timestamp = ''2016-05-01T00:05:00'', Sum = 2700\<rparr>] []
     = Inl ZeroDivisionError"
  by (simp add: computeAdjustment_def)

lemma computeAdjustment_returns:
  assumes "SECONDS_PER_DATA_POINT cfg \<noteq> 0"
  shows "\<exists>peakWrite peakRead.
           computeAdjustment cfg currentCapacity writeThroughput readThroughput =
             Inr (peakWrite, peakRead,
                  adjustCapacities cfg (NumberOfDecreasesToday currentCapacity)
                    (WriteCapacityUnits currentCapacity) (ReadCapacityUnits currentCapacity)
                    peakWrite peakRead)"
proof -
  from assms obtain pr where "peakThroughputLastDay cfg 0 readThroughput = Inr pr"
    using peakThroughputLastDay_returns by blast
  moreover from assms obtain pw where "peakThroughputLastDay cfg 0 writeThroughput = Inr pw"
    using peakThroughputLastDay_returns by blast
  ultimately show ?thesis by (simp add: computeAdjustment_def)
qed

lemma adjustTableCapacity_returns:
  assumes "SECONDS_PER_DATA_POINT cfg \<noteq> 0"
  shows "\<exists>peakWrite peakRead.
           adjustTableCapacity cfg boto3 tableName =
             (tableEffects cfg tableName (provisioned_throughput (Table boto3 tableName))
                peakWrite peakRead
                (adjustCapacities cfg
                   (NumberOfDecreasesToday (provisioned_throughput (Table boto3 tableName)))
                   (WriteCapacityUnits (provisioned_throughput (Table boto3 tableName)))
                   (ReadCapacityUnits (provisioned_throughput (Table boto3 tableName)))
                   peakWrite peakRead),
              None)"
proof -
  from computeAdjustment_returns [OF assms] obtain pw pr where
    "computeAdjustment cfg (provisioned_throughput (Table boto3 tableName))
       (get_metric_statistics boto3 (SECONDS_PER_DATA_POINT cfg)
          ''ConsumedWriteCapacityUnits'' [(''TableName'', tableName)])
       (get_metric_statistics boto3 (SECONDS_PER_DATA_POINT cfg)
          ''ConsumedReadCapacityUnits'' [(''TableName'', tableName)])
     = Inr (pw, pr,
            adjustCapacities cfg
              (NumberOfDecreasesToday (provisioned_throughput (Table boto3 tableName)))
              (WriteCapacityUnits (provisioned_throughput (Table boto3 tableName)))
              (ReadCapacityUnits (provisioned_throughput (Table boto3 tableName))) pw pr)"
    by blast
  then show ?thesis
    by (intro exI [of _ pw] exI [of _ pr]) (simp add: adjustTableCapacity_def Let_def)
qed

lemma adjustIndexCapacity_returns:
  assumes "SECONDS_PER_DATA_POINT cfg \<noteq> 0"
  shows "\<exists>peakWrite peakRead.
           adjustIndexCapacity cfg boto3 tableName secondaryIndex =
             (indexEffects cfg tableName (IndexName secondaryIndex)
                (ProvisionedThroughput secondaryIndex) peakWrite peakRead
                (adjustCapacities cfg
                   (NumberOfDecreasesToday (ProvisionedThroughput secondaryIndex))
                   (WriteCapacityUnits (ProvisionedThroughput secondaryIndex))
                   (ReadCapacityUnits (ProvisionedThroughput secondaryIndex))
                   peakWrite peakRead),
              None)"
proof -
  from computeAdjustment_returns [OF assms] obtain pw pr where
    "computeAdjustment cfg (ProvisionedThroughput secondaryIndex)
       (get_metric_statistics boto3 (SECONDS_PER_DATA_POINT cfg)
          ''ConsumedWriteCapacityUnits''
          [(''TableName'', tableName),
           (''GlobalSecondaryIndexName'', IndexName secondaryIndex)])
       (get_metric_statistics boto3 (SECONDS_PER_DATA_POINT cfg)
          ''ConsumedReadCapacityUnits''
          [(''TableName'', tableName),
           (''GlobalSecondaryIndexName'', IndexName secondaryIndex)])
     = Inr (pw, pr,
            adjustCapacities cfg
              (NumberOfDecreasesToday (ProvisionedThroughput secondaryIndex))
              (WriteCapacityUnits (ProvisionedThroughput secondaryIndex))
              (ReadCapacityUnits (ProvisionedThroughput secondaryIndex)) pw pr)"
    by blast
  then show ?thesis
    by (intro exI [of _ pw] exI [of _ pr]) (simp add: adjustIndexCapacity_def Let_def)
qed

lemma updates_tableEffects:
  "updates (tableEffects cfg tableName currentCapacity peakWrite peakRead a) =
     (if readWasUpdated a \<or> writeWasUpdated a
      then [update_table tableName
              (TableThroughput (adjustedReadCapacity a) (adjustedWriteCapacity a))]
      else [])"
  by (simp add: updates_def tableEffects_def sendEmailNotification_def Let_def)

lemma updates_indexEffects:
  "updates (indexEffects cfg tableName secondaryIndexName currentCapacity peakWrite peakRead a) =
     (if readWasUpdated a \<or> writeWasUpdated a
      then [update_table tableName
              (GlobalSecondaryIndexUpdate secondaryIndexName
                 (adjustedReadCapacity a) (adjustedWriteCapacity a))]
      else [])"
  by (simp add: updates_def indexEffects_def sendEmailNotification_def Let_def)

subsection \<open>Decreases and the daily limit\<close>

text \<open>
  C6 says that an update never lowers a capacity once the decrease count has reached
  \<open>MAXIMUM_TIMES_TO_LOWER_CAPACITY_PER_DAY\<close>, which line 20 documents as the "maximum
  times to lower capacity per day". Line 84 puts the lower pass under that test, but the
  clamp of lines 95 and 97 is under no test. The table \<open>orders\<close> of \<open>example_boto3\<close> is
  provisioned at 6000/6000, has used its one decrease of the day and has no datapoints;
  the script with its default configuration sends an update to 5000/5000.
\<close>

theorem decrease_issued_after_daily_limit:
  "MAXIMUM_TIMES_TO_LOWER_CAPACITY_PER_DAY default_config
     \<le> NumberOfDecreasesToday (provisioned_throughput (Table example_boto3 ''orders''))
   \<and> ReadCapacityUnits (provisioned_throughput (Table example_boto3 ''orders'')) = 6000
   \<and> WriteCapacityUnits (provisioned_throughput (Table example_boto3 ''orders'')) = 6000
   \<and> updates (fst (adjustTableCapacity default_config example_boto3 ''orders''))
       = [update_table ''orders'' (TableThroughput 5000 5000)]
   \<and> snd (adjustTableCapacity default_config example_boto3 ''orders'') = None"
  by (simp add: adjustTableCapacity_def computeAdjustment_def updates_tableEffects
        adjustedReadCapacity_eq adjustedWriteCapacity_eq readWasUpdated_eq writeWasUpdated_eq
        default_values example_boto3_def Let_def)

text \<open>
  The clamp to the maximum is the only way: with the constants of the source, once the
  decrease count has reached the limit, a capacity that is not above
  \<open>MAXIMUM_CAPACITY\<close> is never lowered.
\<close>

lemma default_no_decrease_within_maximum:
  assumes "MAXIMUM_TIMES_TO_LOWER_CAPACITY_PER_DAY default_config \<le> d"
    and "c \<le> MAXIMUM_CAPACITY default_config"
  shows "c \<le> min (max (if p > of_int c * RAISE_CAPACITY_THRESHOLD default_config
               then \<lceil>p * RAISE_CAPACITY_MULTIPLE default_config\<rceil>
               else if d < MAXIMUM_TIMES_TO_LOWER_CAPACITY_PER_DAY default_config
                    then \<lceil>p * LOWER_CAPACITY_MULTIPLE default_config\<rceil> else c)
          (MINIMUM_CAPACITY default_config)) (MAXIMUM_CAPACITY default_config)"
proof (cases "p > of_int c * RAISE_CAPACITY_THRESHOLD default_config")
  case False
  with assms show ?thesis by simp
next
  case True
  have "c \<le> max \<lceil>p * RAISE_CAPACITY_MULTIPLE default_config\<rceil> (MINIMUM_CAPACITY default_config)"
  proof (cases "c \<le> 3")
    case True
    then show ?thesis by (simp add: default_values le_max_iff_disj)
  next
    case False
    then have "(0::real) < of_int c" by simp
    with \<open>p > of_int c * RAISE_CAPACITY_THRESHOLD default_config\<close>
    have "of_int c - 1 < p * (7 / 5)" by (simp add: default_values)
    then have "c \<le> \<lceil>p * (7 / 5)\<rceil>" by (simp only: le_ceiling_iff)
    then show ?thesis by (simp add: default_values le_max_iff_disj)
  qed
  with True assms(2) show ?thesis by simp
qed

lemma default_no_decrease_within_maximum_adjusted:
  assumes "MAXIMUM_TIMES_TO_LOWER_CAPACITY_PER_DAY default_config \<le> d"
  shows "r \<le> MAXIMUM_CAPACITY default_config \<Longrightarrow>
           r \<le> adjustedReadCapacity (adjustCapacities default_config d w r pw pr)"
    and "w \<le> MAXIMUM_CAPACITY default_config \<Longrightarrow>
           w \<le> adjustedWriteCapacity (adjustCapacities default_config d w r pw pr)"
  unfolding adjustedReadCapacity_eq adjustedWriteCapacity_eq
  by (rule default_no_decrease_within_maximum [OF assms], assumption)+

subsection \<open>Notifications\<close>

text \<open>
  C7. Processing a unit, table or index, sends exactly one notification when the read
  or the write capacity changed, the sender address is not empty and there is at least
  one recipient; it sends none when the sender address is empty, none when there is no
  recipient, and none when nothing changed.
\<close>

theorem one_notification_per_changed_unit:
  "length (notifications (tableEffects cfg tableName currentCapacity peakWrite peakRead a)) =
     (if (readWasUpdated a \<or> writeWasUpdated a)
         \<and> EMAIL_ADDRESS_OF_SENDER cfg \<noteq> '''' \<and> EMAIL_ADDRESSES_OF_RECIPIENTS cfg \<noteq> []
      then 1 else 0)
   \<and> length (notifications
        (indexEffects cfg tableName secondaryIndexName currentCapacity peakWrite peakRead a)) =
     (if (readWasUpdated a \<or> writeWasUpdated a)
         \<and> EMAIL_ADDRESS_OF_SENDER cfg \<noteq> '''' \<and> EMAIL_ADDRESSES_OF_RECIPIENTS cfg \<noteq> []
      then 1 else 0)"
  by (simp add: notifications_def tableEffects_def indexEffects_def
        sendEmailNotification_def Let_def)

text \<open>
  The index of \<open>example_boto3\<close>, processed with notifications switched on: its peak is
  \<open>2700 / 300 = 9\<close>, both capacities go from 10 to 11, one update and one notification
  are issued and the loop ends without an exception.
\<close>

lemma example_index_run:
  "updates (fst (adjustTableIndexCapacities notifying_config example_boto3 ''orders''))
     = [update_table ''orders'' (GlobalSecondaryIndexUpdate ''by_customer'' 11 11)]
   \<and> length (notifications
        (fst (adjustTableIndexCapacities notifying_config example_boto3 ''orders''))) = 1
   \<and> snd (adjustTableIndexCapacities notifying_config example_boto3 ''orders'') = None"
  by (simp add: adjustTableIndexCapacities_def
        adjustIndexCapacity_def computeAdjustment_def indexEffects_def
        sendEmailNotification_def updates_def notifications_def
        adjustedReadCapacity_eq adjustedWriteCapacity_eq readWasUpdated_eq writeWasUpdated_eq
        notifying_config_def default_config_def example_boto3_def Let_def)

subsection \<open>Capacities outside the configured range\<close>

lemma clamp_in_range:
  fixes x lo hi :: int
  assumes "lo \<le> hi"
  shows "lo \<le> min (max x lo) hi" and "min (max x lo) hi \<le> hi"
  using assms by auto

lemma adjusted_in_range:
  assumes "MINIMUM_CAPACITY cfg \<le> MAXIMUM_CAPACITY cfg"
  shows "MINIMUM_CAPACITY cfg \<le> adjustedReadCapacity (adjustCapacities cfg d w r pw pr)"
    and "adjustedReadCapacity (adjustCapacities cfg d w r pw pr) \<le> MAXIMUM_CAPACITY cfg"
    and "MINIMUM_CAPACITY cfg \<le> adjustedWriteCapacity (adjustCapacities cfg d w r pw pr)"
    and "adjustedWriteCapacity (adjustCapacities cfg d w r pw pr) \<le> MAXIMUM_CAPACITY cfg"
  unfolding adjustedReadCapacity_eq adjustedWriteCapacity_eq
  by (rule clamp_in_range [OF assms])+

text \<open>
  C9. When the minimum is not above the maximum and the current read or write capacity
  of a unit lies outside the range from \<open>MINIMUM_CAPACITY\<close> to \<open>MAXIMUM_CAPACITY\<close>, that
  direction is marked changed whatever the two passes do, one update is issued, for a
  table and for an index alike, and both values it carries are inside the range. When
  neither pass fires, the clamp alone makes the change: a capacity below the minimum
  goes to the minimum, and a capacity above the maximum goes down to the maximum although
  the decrease count has reached the daily limit.
\<close>

theorem out_of_range_capacity_is_updated:
  assumes "MINIMUM_CAPACITY cfg \<le> MAXIMUM_CAPACITY cfg"
    and "a = adjustCapacities cfg (NumberOfDecreasesToday currentCapacity)
               (WriteCapacityUnits currentCapacity) (ReadCapacityUnits currentCapacity)
               peakWrite peakRead"
    and "ReadCapacityUnits currentCapacity < MINIMUM_CAPACITY cfg
         \<or> MAXIMUM_CAPACITY cfg < ReadCapacityUnits currentCapacity
         \<or> WriteCapacityUnits currentCapacity < MINIMUM_CAPACITY cfg
         \<or> MAXIMUM_CAPACITY cfg < WriteCapacityUnits currentCapacity"
  shows "(ReadCapacityUnits currentCapacity < MINIMUM_CAPACITY cfg
            \<or> MAXIMUM_CAPACITY cfg < ReadCapacityUnits currentCapacity
          \<longrightarrow> readWasUpdated a)
       \<and> (WriteCapacityUnits currentCapacity < MINIMUM_CAPACITY cfg
            \<or> MAXIMUM_CAPACITY cfg < WriteCapacityUnits currentCapacity
          \<longrightarrow> writeWasUpdated a)
       \<and> updates (tableEffects cfg tableName currentCapacity peakWrite peakRead a)
           = [update_table tableName
                (TableThroughput (adjustedReadCapacity a) (adjustedWriteCapacity a))]
       \<and> updates (indexEffects cfg tableName secondaryIndexName currentCapacity
                     peakWrite peakRead a)
           = [update_table tableName
                (GlobalSecondaryIndexUpdate secondaryIndexName
                   (adjustedReadCapacity a) (adjustedWriteCapacity a))]
       \<and> MINIMUM_CAPACITY cfg \<le> adjustedReadCapacity a
       \<and> adjustedReadCapacity a \<le> MAXIMUM_CAPACITY cfg
       \<and> MINIMUM_CAPACITY cfg \<le> adjustedWriteCapacity a
       \<and> adjustedWriteCapacity a \<le> MAXIMUM_CAPACITY cfg
       \<and> (MAXIMUM_TIMES_TO_LOWER_CAPACITY_PER_DAY cfg \<le> NumberOfDecreasesToday currentCapacity
            \<and> peakRead \<le> of_int (ReadCapacityUnits currentCapacity) * RAISE_CAPACITY_THRESHOLD cfg
          \<longrightarrow> adjustedReadCapacity a =
                (if MAXIMUM_CAPACITY cfg < ReadCapacityUnits currentCapacity
                 then MAXIMUM_CAPACITY cfg
                 else max (ReadCapacityUnits currentCapacity) (MINIMUM_CAPACITY cfg)))
       \<and> (MAXIMUM_TIMES_TO_LOWER_CAPACITY_PER_DAY cfg \<le> NumberOfDecreasesToday currentCapacity
            \<and> peakWrite \<le> of_int (WriteCapacityUnits currentCapacity) * RAISE_CAPACITY_THRESHOLD cfg
          \<longrightarrow> adjustedWriteCapacity a =
                (if MAXIMUM_CAPACITY cfg < WriteCapacityUnits currentCapacity
                 then MAXIMUM_CAPACITY cfg
                 else max (WriteCapacityUnits currentCapacity) (MINIMUM_CAPACITY cfg)))"
proof -
  note range = adjusted_in_range [OF assms(1), of "NumberOfDecreasesToday currentCapacity"
      "WriteCapacityUnits currentCapacity" "ReadCapacityUnits currentCapacity"
      peakWrite peakRead, folded assms(2)]
  have r: "readWasUpdated a = (adjustedReadCapacity a \<noteq> ReadCapacityUnits currentCapacity)"
    unfolding assms(2) by (rule readWasUpdated_eq)
  have w: "writeWasUpdated a = (adjustedWriteCapacity a \<noteq> WriteCapacityUnits currentCapacity)"
    unfolding assms(2) by (rule writeWasUpdated_eq)
  have changed: "readWasUpdated a \<or> writeWasUpdated a"
    using assms(3) range unfolding r w by linarith
  have rclamp:
    "MAXIMUM_TIMES_TO_LOWER_CAPACITY_PER_DAY cfg \<le> NumberOfDecreasesToday currentCapacity
       \<and> peakRead \<le> of_int (ReadCapacityUnits currentCapacity) * RAISE_CAPACITY_THRESHOLD cfg
     \<longrightarrow> adjustedReadCapacity a =
           (if MAXIMUM_CAPACITY cfg < ReadCapacityUnits currentCapacity
            then MAXIMUM_CAPACITY cfg
            else max (ReadCapacityUnits currentCapacity) (MINIMUM_CAPACITY cfg))"
    using assms(1) unfolding assms(2) adjustedReadCapacity_eq by auto
  have wclamp:
    "MAXIMUM_TIMES_TO_LOWER_CAPACITY_PER_DAY cfg \<le> NumberOfDecreasesToday currentCapacity
       \<and> peakWrite \<le> of_int (WriteCapacityUnits currentCapacity) * RAISE_CAPACITY_THRESHOLD cfg
     \<longrightarrow> adjustedWriteCapacity a =
           (if MAXIMUM_CAPACITY cfg < WriteCapacityUnits currentCapacity
            then MAXIMUM_CAPACITY cfg
            else max (WriteCapacityUnits currentCapacity) (MINIMUM_CAPACITY cfg))"
    using assms(1) unfolding assms(2) adjustedWriteCapacity_eq by auto
  have rc: "ReadCapacityUnits currentCapacity < MINIMUM_CAPACITY cfg
            \<or> MAXIMUM_CAPACITY cfg < ReadCapacityUnits currentCapacity
          \<longrightarrow> readWasUpdated a"
    using range unfolding r by linarith
  have wc: "WriteCapacityUnits currentCapacity < MINIMUM_CAPACITY cfg
            \<or> MAXIMUM_CAPACITY cfg < WriteCapacityUnits currentCapacity
          \<longrightarrow> writeWasUpdated a"
    using range unfolding w by linarith
  show ?thesis
    using changed range rclamp wclamp rc wc
    by (simp only: updates_tableEffects updates_indexEffects if_True simp_thms)
qed

theorem out_of_range_capacity_is_updated_witness:
  "MINIMUM_CAPACITY default_config \<le> MAXIMUM_CAPACITY default_config
   \<and> MAXIMUM_CAPACITY default_config < 6000
   \<and> MAXIMUM_TIMES_TO_LOWER_CAPACITY_PER_DAY default_config \<le> 1
   \<and> (0::real) \<le> of_int 6000 * RAISE_CAPACITY_THRESHOLD default_config
   \<and> readWasUpdated (adjustCapacities default_config 1 100 6000 0 0)
   \<and> \<not> writeWasUpdated (adjustCapacities default_config 1 100 6000 0 0)
   \<and> adjustedReadCapacity (adjustCapacities default_config 1 100 6000 0 0) = 5000
   \<and> updates (tableEffects default_config ''orders''
        \<lparr>NumberOfDecreasesToday = 1, WriteCapacityUnits = 100, ReadCapacityUnits = 6000\<rparr>
        0 0 (adjustCapacities default_config 1 100 6000 0 0))
       = [update_table ''orders'' (TableThroughput 5000 100)]"
  using out_of_range_capacity_is_updated
          [where cfg = default_config
             and currentCapacity =
               "\<lparr>NumberOfDecreasesToday = 1, WriteCapacityUnits = 100,
                 ReadCapacityUnits = 6000\<rparr>"
             and peakWrite = 0 and peakRead = 0
             and a = "adjustCapacities default_config 1 100 6000 0 0"
             and tableName = "''orders''" and secondaryIndexName = "''by_customer''"]
  by (simp add: default_values adjustedReadCapacity_eq adjustedWriteCapacity_eq
        writeWasUpdated_eq)

subsection \<open>Read and write are decided separately\<close>

text \<open>
  C10. With a bucket length other than 0 (300 in the source), two inputs with the same
  decrease count, the same read capacity and the same read datapoints give the same read
  peak, the same adjusted read capacity and the same read changed flag, whatever their
  write capacities and write datapoints are; and the same with read and write exchanged.
  Both computations return a result, not an exception.
\<close>

theorem read_and_write_do_not_interfere:
  assumes "SECONDS_PER_DATA_POINT cfg \<noteq> 0"
    and "NumberOfDecreasesToday c1 = NumberOfDecreasesToday c2"
  shows "(ReadCapacityUnits c1 = ReadCapacityUnits c2 \<longrightarrow>
            readOutcome (computeAdjustment cfg c1 writeThroughput1 readThroughput)
              = readOutcome (computeAdjustment cfg c2 writeThroughput2 readThroughput))
       \<and> (WriteCapacityUnits c1 = WriteCapacityUnits c2 \<longrightarrow>
            writeOutcome (computeAdjustment cfg c1 writeThroughput readThroughput1)
              = writeOutcome (computeAdjustment cfg c2 writeThroughput readThroughput2))
       \<and> (\<exists>peak adjusted changed.
            readOutcome (computeAdjustment cfg c1 writeThroughput1 readThroughput)
              = Inr (peak, adjusted, changed))
       \<and> (\<exists>peak adjusted changed.
            writeOutcome (computeAdjustment cfg c1 writeThroughput readThroughput1)
              = Inr (peak, adjusted, changed))"
proof -
  from assms(1) obtain pr where pr: "peakThroughputLastDay cfg 0 readThroughput = Inr pr"
    using peakThroughputLastDay_returns by blast
  from assms(1) obtain pr1 where pr1: "peakThroughputLastDay cfg 0 readThroughput1 = Inr pr1"
    using peakThroughputLastDay_returns by blast
  from assms(1) obtain pr2 where pr2: "peakThroughputLastDay cfg 0 readThroughput2 = Inr pr2"
    using peakThroughputLastDay_returns by blast
  from assms(1) obtain pw where pw: "peakThroughputLastDay cfg 0 writeThroughput = Inr pw"
    using peakThroughputLastDay_returns by blast
  from assms(1) obtain pw1 where pw1: "peakThroughputLastDay cfg 0 writeThroughput1 = Inr pw1"
    using peakThroughputLastDay_returns by blast
  from assms(1) obtain pw2 where pw2: "peakThroughputLastDay cfg 0 writeThroughput2 = Inr pw2"
    using peakThroughputLastDay_returns by blast
  show ?thesis
    using assms(2)
    by (simp add: computeAdjustment_def readOutcome_def writeOutcome_def
          pr pr1 pr2 pw pw1 pw2 adjustedReadCapacity_eq adjustedWriteCapacity_eq
          readWasUpdated_eq writeWasUpdated_eq)
qed

theorem read_and_write_do_not_interfere_witness:
  "SECONDS_PER_DATA_POINT default_config \<noteq> 0
   \<and> readOutcome (computeAdjustment default_config
        \<lparr>NumberOfDecreasesToday = 0, WriteCapacityUnits = 10, ReadCapacityUnits = 10\<rparr>
        [] [\<lparr>Timestamp = ''2016-05-01T00:05:00'', Sum = 2700\<rparr>])
     = Inr (9, 11, True)
   \<and> readOutcome (computeAdjustment default_config
        \<lparr>NumberOfDecreasesToday = 0, WriteCapacityUnits = 4000, ReadCapacityUnits = 10\<rparr>
        [\<lparr>Timestamp = ''2016-05-01T00:05:00'', Sum = 1200000\<rparr>]
        [\<lparr>Timestamp = ''2016-05-01T00:05:00'', Sum = 2700\<rparr>])
     = Inr (9, 11, True)
   \<and> writeOutcome (computeAdjustment default_config
        \<lparr>NumberOfDecreasesToday = 0, WriteCapacityUnits = 4000, ReadCapacityUnits = 10\<rparr>
        [\<lparr>Timestamp = ''2016-05-01T00:05:00'', Sum = 1200000\<rparr>]
        [\<lparr>Timestamp = ''2016-05-01T00:05:00'', Sum = 2700\<rparr>])
     = Inr (4000, 5000, True)
   \<and> writeOutcome (computeAdjustment default_config
        \<lparr>NumberOfDecreasesToday = 0, WriteCapacityUnits = 4000, ReadCapacityUnits = 700\<rparr>
        [\<lparr>Timestamp = ''2016-05-01T00:05:00'', Sum = 1200000\<rparr>] [])
     = Inr (4000, 5000, True)"
  using read_and_write_do_not_interfere
          [where cfg = default_config
             and ?c1.0 =
               "\<lparr>NumberOfDecreasesToday = 0, WriteCapacityUnits = 4000,
                 ReadCapacityUnits = 10\<rparr>"
             and ?c2.0 =
               "\<lparr>NumberOfDecreasesToday = 0, WriteCapacityUnits = 10,
                 ReadCapacityUnits = 10\<rparr>"
             and ?writeThroughput1.0 =
               "[\<lparr>Timestamp = ''2016-05-01T00:05:00'', Sum = 1200000\<rparr>]"
             and ?writeThroughput2.0 = "[]"
             and readThroughput = "[\<lparr>Timestamp = ''2016-05-01T00:05:00'', Sum = 2700\<rparr>]"
             and writeThroughput =
               "[\<lparr>Timestamp = ''2016-05-01T00:05:00'', Sum = 1200000\<rparr>]"
             and ?readThroughput1.0 =
               "[\<lparr>Timestamp = ''2016-05-01T00:05:00'', Sum = 2700\<rparr>]"
             and ?readThroughput2.0 = "[]"]
  by (simp add: computeAdjustment_def readOutcome_def writeOutcome_def default_values
        adjustedReadCapacity_eq adjustedWriteCapacity_eq readWasUpdated_eq writeWasUpdated_eq)

end
